theory Spec2Isabelle
  imports Complex_Main "HOL-Library.Word"
begin

section \<open>The EDF reader and writer of wonambi (wonambi/ioeeg/edf.py)\<close>

text \<open>
  Conventions of the embedding.
  \<^item> Python integers are \<open>int\<close>; a file is the list of its bytes, a byte is a \<open>char\<close>
    (8 bits), so that a bytes literal of the source is a string literal here.
  \<^item> A float64 is an exact \<open>real\<close>: rounding and overflow of the arithmetic are not
    modelled. The NaN with which \<open>return_dat\<close> fills its result is \<open>None\<close> in a cell
    of type \<open>real option\<close>; arithmetic on it gives NaN again.
  \<^item> Every exception of the source is a value of \<open>error\<close>, and a function that can
    raise returns \<open>error + 'a\<close>. \<open>Unmodelled\<close> marks an input on which Python
    continues with a value that this embedding cannot express (a text field that is not
    ASCII, the float literals inf and nan, a float of infinite size); no theorem below
    draws a conclusion about the program from it.
\<close>

datatype error =
    AssertionError | AttributeError | ValueError | IndexError | OverflowError
  | ZeroDivisionError | OSError | UnicodeEncodeError | StructError | Unmodelled

type_synonym byte = char

subsection \<open>Python and numpy primitives used by the module\<close>

definition bind :: "error + 'a \<Rightarrow> ('a \<Rightarrow> error + 'b) \<Rightarrow> error + 'b" where
  "bind m f = (case m of Inl e \<Rightarrow> Inl e | Inr x \<Rightarrow> f x)"

definition attr :: "'a option \<Rightarrow> error + 'a" where
  \<comment> \<open>reading an instance attribute that may not have been assigned yet\<close>
  "attr a = (case a of None \<Rightarrow> Inl AttributeError | Some x \<Rightarrow> Inr x)"

definition norm_index :: "nat \<Rightarrow> int \<Rightarrow> nat" where
  \<comment> \<open>a slice bound on a sequence of length n: negative bounds count from the end, and
      the result is clipped to the sequence\<close>
  "norm_index n i = (if i < 0 then nat (int n + i) else min n (nat i))"

definition py_slice :: "'a list \<Rightarrow> int \<Rightarrow> int \<Rightarrow> 'a list" where
  \<comment> \<open>\<open>xs[a:b]\<close>\<close>
  "py_slice xs a b =
     (let s = norm_index (length xs) a; e = norm_index (length xs) b
      in take (e - s) (drop s xs))"

definition py_index :: "'a list \<Rightarrow> int \<Rightarrow> error + 'a" where
  \<comment> \<open>\<open>xs[i]\<close>, also numpy's integer indexing: a negative index counts from the
      end; IndexError out of range\<close>
  "py_index xs i =
     (if 0 \<le> i \<and> i < int (length xs) then Inr (xs ! nat i)
      else if - int (length xs) \<le> i \<and> i < 0 then Inr (xs ! nat (int (length xs) + i))
      else Inl IndexError)"

definition assign_slice :: "'a list \<Rightarrow> int \<Rightarrow> int \<Rightarrow> 'a list \<Rightarrow> error + 'a list" where
  \<comment> \<open>numpy's \<open>row[a:b] = src\<close>: the lengths agree, or a source of length 1 is
      broadcast, or ValueError\<close>
  "assign_slice row a b src =
     (let s = norm_index (length row) a; e = norm_index (length row) b; k = e - s
      in if length src = k then Inr (take s row @ src @ drop (s + k) row)
         else if length src = 1 then Inr (take s row @ replicate k (hd src) @ drop (s + k) row)
         else Inl ValueError)"

definition int_of_quotient :: "int \<Rightarrow> int \<Rightarrow> error + int" where
  \<comment> \<open>\<open>int(a / b)\<close> for a numpy integer a: the quotient is truncated towards zero; with
      b = 0 numpy gives inf or nan, which \<open>int\<close> refuses\<close>
  "int_of_quotient a b =
     (if b = 0 then (if a = 0 then Inl ValueError else Inl OverflowError)
      else Inr (sgn a * sgn b * (\<bar>a\<bar> div \<bar>b\<bar>)))"

definition np_max :: "int list \<Rightarrow> error + int" where
  \<comment> \<open>\<open>numpy.max\<close> of a list: ValueError on an empty one\<close>
  "np_max xs = (if xs = [] then Inl ValueError else Inr (Max (set xs)))"

definition int16_le :: "byte \<Rightarrow> byte \<Rightarrow> int" where
  \<comment> \<open>the little-endian 16-bit signed integer of two bytes\<close>
  "int16_le lo hi = sint (word_of_nat (of_char lo + 256 * of_char hi) :: 16 word)"

fun int16_items :: "byte list \<Rightarrow> int list" where
  "int16_items (lo # hi # bs) = int16_le lo hi # int16_items bs"
| "int16_items _ = []"

definition fromfile :: "byte list \<Rightarrow> int \<Rightarrow> int \<Rightarrow> error + int list" where
  \<comment> \<open>\<open>f.seek(pos)\<close> followed by \<open>fromfile(f, count=count, dtype='int16')\<close>: a negative
      position is refused; the items are those the file still holds from there, at most
      count of them (all of them for a negative count)\<close>
  "fromfile file pos count =
     (if pos < 0 then Inl OSError
      else let items = int16_items (drop (nat pos) file)
           in Inr (if count < 0 then items else take (nat count) items))"

definition np_repeat :: "'a list \<Rightarrow> int \<Rightarrow> error + 'a list" where
  \<comment> \<open>\<open>numpy.repeat(x, ratio)\<close>: every item ratio times in a row\<close>
  "np_repeat x ratio =
     (if ratio < 0 then Inl ValueError else Inr (concat (map (replicate (nat ratio)) x)))"

definition assign_row :: "nat \<Rightarrow> 'a list \<Rightarrow> error + 'a list" where
  \<comment> \<open>\<open>m[i, :] = v\<close> for a row of n cells\<close>
  "assign_row n v =
     (if length v = n then Inr v
      else if length v = 1 then Inr (replicate n (hd v))
      else Inl ValueError)"

fun mapM :: "('a \<Rightarrow> error + 'b) \<Rightarrow> 'a list \<Rightarrow> error + 'b list" where
  "mapM f [] = Inr []"
| "mapM f (x # xs) = bind (f x) (\<lambda>y. bind (mapM f xs) (\<lambda>ys. Inr (y # ys)))"

subsection \<open>Text and numbers of the header\<close>

definition is_digit :: "char \<Rightarrow> bool" where
  "is_digit c = (48 \<le> (of_char c :: nat) \<and> (of_char c :: nat) \<le> 57)"

definition digit_val :: "char \<Rightarrow> int" where
  "digit_val c = int (of_char c) - 48"

definition decimal :: "string \<Rightarrow> int" where
  \<comment> \<open>the value of a run of decimal digits\<close>
  "decimal ds = foldl (\<lambda>a c. 10 * a + digit_val c) 0 ds"

definition is_space :: "char \<Rightarrow> bool" where
  \<comment> \<open>the white space that \<open>int\<close> and \<open>float\<close> skip in a bytes object\<close>
  "is_space c = ((9 \<le> (of_char c :: nat) \<and> (of_char c :: nat) \<le> 13) \<or> c = CHR '' '')"

definition is_str_space :: "char \<Rightarrow> bool" where
  \<comment> \<open>the white space of \<open>str.strip\<close> among the ASCII characters\<close>
  "is_str_space c = (is_space c \<or> (28 \<le> (of_char c :: nat) \<and> (of_char c :: nat) \<le> 31))"

definition strip_with :: "(char \<Rightarrow> bool) \<Rightarrow> string \<Rightarrow> string" where
  "strip_with sp s = rev (dropWhile sp (rev (dropWhile sp s)))"

definition decode_strip :: "byte list \<Rightarrow> error + string" where
  \<comment> \<open>\<open>b.decode('utf-8').strip()\<close>, for ASCII bytes\<close>
  "decode_strip b =
     (if list_all (\<lambda>c. (of_char c :: nat) < 128) b then Inr (strip_with is_str_space b)
      else Inl Unmodelled)"

fun drop_underscores :: "char option \<Rightarrow> string \<Rightarrow> string option" where
  \<comment> \<open>an underscore is allowed in a number between two digits only; the first argument
      is the character before\<close>
  "drop_underscores prev [] = Some []"
| "drop_underscores prev (c # cs) =
     (if c = CHR ''_'' then
        (case (prev, cs) of
           (Some p, n # _) \<Rightarrow> if is_digit p \<and> is_digit n then drop_underscores (Some c) cs
                             else None
         | _ \<Rightarrow> None)
      else map_option ((#) c) (drop_underscores (Some c) cs))"

definition split_sign :: "string \<Rightarrow> int \<times> string" where
  "split_sign s =
     (case s of
        c # cs \<Rightarrow> if c = CHR ''+'' then (1, cs) else if c = CHR ''-'' then (-1, cs) else (1, s)
      | [] \<Rightarrow> (1, s))"

definition py_int :: "byte list \<Rightarrow> error + int" where
  \<comment> \<open>\<open>int(b)\<close> of a bytes object\<close>
  "py_int b =
     (case drop_underscores None (strip_with is_space b) of
        None \<Rightarrow> Inl ValueError
      | Some u \<Rightarrow>
          let (sg, ds) = split_sign u
          in if ds \<noteq> [] \<and> list_all is_digit ds then Inr (sg * decimal ds) else Inl ValueError)"

definition lower :: "char \<Rightarrow> char" where
  "lower c = (if 65 \<le> (of_char c :: nat) \<and> (of_char c :: nat) \<le> 90
              then char_of ((of_char c :: nat) + 32) else c)"

definition scale10 :: "int \<Rightarrow> int \<Rightarrow> real" where
  \<comment> \<open>m times ten to the power e\<close>
  "scale10 m e = (if 0 \<le> e then real_of_int m * 10 ^ nat e else real_of_int m / 10 ^ nat (- e))"

definition finite_float :: "real \<Rightarrow> error + real" where
  \<comment> \<open>a literal beyond the largest float64 is read as inf\<close>
  "finite_float x = (if \<bar>x\<bar> < 2 ^ 1024 then Inr x else Inl Unmodelled)"

definition py_float :: "byte list \<Rightarrow> error + real" where
  \<comment> \<open>\<open>float(b)\<close> of a bytes object: sign, digits, fraction, exponent\<close>
  "py_float b =
     (case drop_underscores None (strip_with is_space b) of
        None \<Rightarrow> Inl ValueError
      | Some u \<Rightarrow>
          let (sg, r) = split_sign u in
          if map lower r = ''inf'' \<or> map lower r = ''infinity'' \<or> map lower r = ''nan''
          then Inl Unmodelled
          else
            let ip = takeWhile is_digit r; r1 = dropWhile is_digit r;
                (fp, r2) = (case r1 of
                              c # r' \<Rightarrow> if c = CHR ''.''
                                         then (takeWhile is_digit r', dropWhile is_digit r')
                                         else ([], r1)
                            | [] \<Rightarrow> ([], r1));
                m = sg * decimal (ip @ fp)
            in if ip = [] \<and> fp = [] then Inl ValueError
               else case r2 of
                      [] \<Rightarrow> finite_float (scale10 m (- int (length fp)))
                    | c # r3 \<Rightarrow>
                        let (esg, ed) = split_sign r3
                        in if (c = CHR ''e'' \<or> c = CHR ''E'') \<and> ed \<noteq> [] \<and> list_all is_digit ed
                           then finite_float (scale10 m (esg * decimal ed - int (length fp)))
                           else Inl ValueError)"

fun digit_runs :: "string \<Rightarrow> string \<Rightarrow> string list" where
  \<comment> \<open>\<open>findall('(\d+)', s)\<close>: the maximal runs of digits; the first argument is the run
      being read\<close>
  "digit_runs cur [] = (if cur = [] then [] else [cur])"
| "digit_runs cur (c # cs) =
     (if is_digit c then digit_runs (cur @ [c]) cs
      else (if cur = [] then [] else [cur]) @ digit_runs [] cs)"

definition numbers_in :: "byte list \<Rightarrow> error + int list" where
  \<comment> \<open>\<open>[int(x) for x in findall('(\d+)', b.decode('utf-8'))]\<close>, for ASCII bytes\<close>
  "numbers_in b =
     (if list_all (\<lambda>c. (of_char c :: nat) < 128) b then Inr (map decimal (digit_runs [] b))
      else Inl Unmodelled)"

definition unpack3 :: "int list \<Rightarrow> error + int \<times> int \<times> int" where
  \<comment> \<open>\<open>(a, b, c) = xs\<close>\<close>
  "unpack3 xs = (case xs of [a, b, c] \<Rightarrow> Inr (a, b, c) | _ \<Rightarrow> Inl ValueError)"

subsection \<open>datetime\<close>

record datetime =
  year :: int
  month :: int
  day :: int
  hour :: int
  minute :: int
  second :: int
  microsecond :: int

definition is_leap :: "int \<Rightarrow> bool" where
  "is_leap y = (y mod 4 = 0 \<and> (y mod 400 = 0 \<or> y mod 100 \<noteq> 0))"

definition days_in_month :: "int \<Rightarrow> int \<Rightarrow> int" where
  "days_in_month y m =
     (if m = 2 then (if is_leap y then 29 else 28)
      else if m = 4 \<or> m = 6 \<or> m = 9 \<or> m = 11 then 30 else 31)"

definition mk_datetime :: "int \<Rightarrow> int \<Rightarrow> int \<Rightarrow> int \<Rightarrow> int \<Rightarrow> int \<Rightarrow> error + datetime" where
  \<comment> \<open>\<open>datetime(year, month, day, hour, minute, sec)\<close>: ValueError out of range\<close>
  "mk_datetime y mo d h mi s =
     (if 1 \<le> y \<and> y \<le> 9999 \<and> 1 \<le> mo \<and> mo \<le> 12 \<and> 1 \<le> d \<and> d \<le> days_in_month y mo
         \<and> 0 \<le> h \<and> h \<le> 23 \<and> 0 \<le> mi \<and> mi \<le> 59 \<and> 0 \<le> s \<and> s \<le> 59
      then Inr \<lparr>year = y, month = mo, day = d, hour = h, minute = mi, second = s,
                microsecond = 0\<rparr>
      else Inl ValueError)"

subsection \<open>The header and the Edf instance\<close>

record header =
  subject_id :: string
  recording_id :: string
  start_time :: datetime
  header_n_bytes :: int
  n_records :: int
  record_length :: real
  n_channels :: int
  label :: "string list"
  transducer :: "string list"
  physical_dim :: "string list"
  physical_min :: "real list"
  physical_max :: "real list"
  digital_min :: "real list"
  digital_max :: "real list"
  prefiltering :: "string list"
  n_samples_per_record :: "int list"

text \<open>
  An instance of class \<open>Edf\<close>: the bytes of the file at \<open>self.filename\<close> (every method
  opens the file again; it is taken not to change in between), the header, and the
  attributes that \<open>return_hdr\<close> assigns, \<open>None\<close> while unassigned.
\<close>

record edf =
  filename :: "byte list"
  hdr :: header
  max_smp :: "int option"
  smp_in_blk :: "int option"
  dig_min :: "real list option"
  phys_min :: "real list option"
  gain :: "real list option"

subsection \<open>_read_hdr and the constructor\<close>

text \<open>
  The statements of \<open>_read_hdr\<close> run in order on the open file: each one starts at the
  position the one before has left and either raises or gives a value and the next
  position. \<open>reader\<close> is such a statement.
\<close>

type_synonym 'a reader = "int \<Rightarrow> error + 'a \<times> int"

definition rbind :: "'a reader \<Rightarrow> ('a \<Rightarrow> 'b reader) \<Rightarrow> 'b reader" where
  "rbind m f = (\<lambda>pos. case m pos of Inl e \<Rightarrow> Inl e | Inr (x, pos') \<Rightarrow> f x pos')"

definition rreturn :: "'a \<Rightarrow> 'a reader" where
  "rreturn x = (\<lambda>pos. Inr (x, pos))"

definition rraise :: "error \<Rightarrow> 'a reader" where
  "rraise e = (\<lambda>pos. Inl e)"

definition lift :: "error + 'a \<Rightarrow> 'a reader" where
  \<comment> \<open>a computation that does not touch the file\<close>
  "lift r = (\<lambda>pos. case r of Inl e \<Rightarrow> Inl e | Inr x \<Rightarrow> Inr (x, pos))"

definition f_read :: "byte list \<Rightarrow> nat \<Rightarrow> byte list reader" where
  \<comment> \<open>\<open>f.read(n)\<close>: the next n bytes, fewer at the end of the file\<close>
  "f_read file n =
     (\<lambda>pos. let b = take n (drop (nat pos) file) in Inr (b, pos + int (length b)))"

definition f_seek_cur :: "int \<Rightarrow> unit reader" where
  \<comment> \<open>\<open>f.seek(k, 1)\<close>: relative to the position, also beyond the end; not before the
      start of the file\<close>
  "f_seek_cur k = (\<lambda>pos. if pos + k < 0 then Inl OSError else Inr ((), pos + k))"

definition f_tell :: "int reader" where
  "f_tell = (\<lambda>pos. Inr (pos, pos))"

definition read_with :: "byte list \<Rightarrow> nat \<Rightarrow> (byte list \<Rightarrow> error + 'a) \<Rightarrow> 'a reader" where
  \<comment> \<open>\<open>conv(f.read(n))\<close>\<close>
  "read_with file n conv = rbind (f_read file n) (\<lambda>b. lift (conv b))"

fun rrepeat :: "nat \<Rightarrow> 'a reader \<Rightarrow> 'a list reader" where
  \<comment> \<open>\<open>[m for n in channels]\<close>\<close>
  "rrepeat 0 m = rreturn []"
| "rrepeat (Suc k) m = rbind m (\<lambda>x. rbind (rrepeat k m) (\<lambda>xs. rreturn (x # xs)))"

definition read_hdr_from :: "byte list \<Rightarrow> header reader" where
  \<comment> \<open>the body of the \<open>with\<close> statement of \<open>_read_hdr\<close>; the value is \<open>hdr\<close>\<close>
  "read_hdr_from file =
     rbind f_tell (\<lambda>t0. if t0 \<noteq> 0 then rraise AssertionError else
     rbind (f_read file 8) (\<lambda>version. if version \<noteq> ''0       '' then rraise AssertionError else
     rbind (read_with file 80 decode_strip) (\<lambda>subj.
     rbind (read_with file 80 decode_strip) (\<lambda>recid.
     rbind (read_with file 8 (\<lambda>b. bind (numbers_in b) unpack3)) (\<lambda>(d, mo, y).
     rbind (read_with file 8 (\<lambda>b. bind (numbers_in b) unpack3)) (\<lambda>(h, mi, sec).
     rbind (lift (mk_datetime (if y \<ge> 85 then y + 1900 else y + 2000) mo d h mi sec)) (\<lambda>start.
     rbind (read_with file 8 py_int) (\<lambda>hnb.
     rbind (f_seek_cur 44) (\<lambda>_.
     rbind (read_with file 8 py_int) (\<lambda>nrec.
     rbind (read_with file 8 py_float) (\<lambda>rlen.
     rbind (read_with file 4 py_int) (\<lambda>nchannels.
     let k = nat nchannels in
     rbind (rrepeat k (read_with file 16 decode_strip)) (\<lambda>labels.
     rbind (rrepeat k (read_with file 80 decode_strip)) (\<lambda>trans.
     rbind (rrepeat k (read_with file 8 decode_strip)) (\<lambda>dims.
     rbind (rrepeat k (read_with file 8 py_float)) (\<lambda>pmins.
     rbind (rrepeat k (read_with file 8 py_float)) (\<lambda>pmaxs.
     rbind (rrepeat k (read_with file 8 py_float)) (\<lambda>dmins.
     rbind (rrepeat k (read_with file 8 py_float)) (\<lambda>dmaxs.
     rbind (rrepeat k (read_with file 80 decode_strip)) (\<lambda>pres.
     rbind (rrepeat k (read_with file 8 py_int)) (\<lambda>nsprs.
     rbind (f_seek_cur (32 * nchannels)) (\<lambda>_.
     rbind f_tell (\<lambda>t. if t \<noteq> hnb then rraise AssertionError else
     rreturn \<lparr>subject_id = subj, recording_id = recid, start_time = start,
               header_n_bytes = hnb, n_records = nrec, record_length = rlen,
               n_channels = nchannels, label = labels, transducer = trans,
               physical_dim = dims, physical_min = pmins, physical_max = pmaxs,
               digital_min = dmins, digital_max = dmaxs, prefiltering = pres,
               n_samples_per_record = nsprs\<rparr>)))))))))))))))))))))))"

definition read_hdr :: "byte list \<Rightarrow> error + header" where
  \<comment> \<open>\<open>_read_hdr\<close> on the file opened at position 0\<close>
  "read_hdr file = (case read_hdr_from file 0 of Inl e \<Rightarrow> Inl e | Inr (h, _) \<Rightarrow> Inr h)"

definition Edf :: "byte list \<Rightarrow> error + edf" where
  \<comment> \<open>\<open>Edf(edffile)\<close>, for the bytes of the file\<close>
  "Edf edffile =
     bind (read_hdr edffile) (\<lambda>h.
       Inr \<lparr>filename = edffile, hdr = h, max_smp = None, smp_in_blk = None,
            dig_min = None, phys_min = None, gain = None\<rparr>)"

subsection \<open>return_hdr\<close>

text \<open>
  \<open>return_hdr\<close> assigns its attributes one by one, so an exception leaves the earlier
  ones assigned: the model returns the instance as it is when the method ends, with the
  result or the exception. The per-channel arrays of a parsed header all have
  \<open>n_channels\<close> entries, so numpy's element-wise operations are \<open>map2\<close>.
  \<open>max_smp / record_length\<close> with \<open>record_length = 0\<close> is inf in numpy.
\<close>

definition return_hdr ::
  "edf \<Rightarrow> edf \<times> (error + string \<times> datetime \<times> real \<times> string list \<times> int \<times> header)" where
  "return_hdr self =
     (let h = hdr self in
      case np_max (n_samples_per_record h) of
        Inl e \<Rightarrow> (self, Inl e)
      | Inr m \<Rightarrow>
         let self1 = self\<lparr>max_smp := Some m,
                          smp_in_blk := Some (sum_list (n_samples_per_record h)),
                          dig_min := Some (digital_min h),
                          phys_min := Some (physical_min h)\<rparr>;
             phys_range = map2 (-) (physical_max h) (physical_min h);
             dig_range = map2 (-) (digital_max h) (digital_min h)
         in if \<not> list_all (\<lambda>r. r > 0) phys_range then (self1, Inl AssertionError)
            else if \<not> list_all (\<lambda>r. r > 0) dig_range then (self1, Inl AssertionError)
            else
              let self2 = self1\<lparr>gain := Some (map2 (/) phys_range dig_range)\<rparr>
              in if record_length h = 0 then (self2, Inl Unmodelled)
                 else (self2, Inr (subject_id h, start_time h, real_of_int m / record_length h,
                                   label h, m * n_records h, h)))"

subsection \<open>_read_record\<close>

definition read_channel :: "edf \<Rightarrow> int \<Rightarrow> int \<Rightarrow> error + real list" where
  \<comment> \<open>the body of the loop of \<open>_read_record\<close>, for channel \<open>i_ch\<close> of block \<open>blk\<close>: the
      row written into \<open>dat_in_rec\<close>\<close>
  "read_channel self blk i_ch =
     (let nspr = n_samples_per_record (hdr self);
          ch_in_rec = sum_list (py_slice nspr 0 i_ch)
      in bind (py_index nspr i_ch) (\<lambda>n_smp_per_chan.
         bind (attr (max_smp self)) (\<lambda>m.
         bind (int_of_quotient m n_smp_per_chan) (\<lambda>ratio.
         bind (attr (smp_in_blk self)) (\<lambda>sib.
         bind (fromfile (filename self) (header_n_bytes (hdr self) + sib * blk + ch_in_rec)
                 n_smp_per_chan) (\<lambda>x.
         bind (np_repeat (map real_of_int x) ratio) (\<lambda>r.
         assign_row (nat m) r)))))))"

definition read_record :: "edf \<Rightarrow> int \<Rightarrow> int list \<Rightarrow> error + real list list" where
  "read_record self blk chans =
     bind (attr (max_smp self)) (\<lambda>m.
       if m < 0 then Inl ValueError else mapM (read_channel self blk) chans)"

subsection \<open>_select_blocks\<close>

text \<open>
  Modelled from the spec: \<open>_select_blocks\<close> of \<open>wonambi/ioeeg/utils.py\<close>, which is not
  among the sources. The spec (4.3, step 2): the global sample range [begsam, endsam) is
  resolved against the block boundaries into an ordered sequence of triples
  (destination range, block index, range within the block) that together and disjointly
  cover the request, with partial first and last blocks and spans of several blocks.
  A block that the request does not meet gives no triple.
\<close>

fun select_from ::
  "int \<Rightarrow> int \<Rightarrow> int list \<Rightarrow> int \<Rightarrow> int \<Rightarrow> ((int \<times> int) \<times> int \<times> (int \<times> int)) list" where
  "select_from blk start [] begsam endsam = []"
| "select_from blk start (b # bs) begsam endsam =
     (let lo = max begsam start; hi = min endsam (start + b)
      in (if lo < hi then [((lo - begsam, hi - begsam), blk, (lo - start, hi - start))]
          else [])
         @ select_from (blk + 1) (start + b) bs begsam endsam)"

definition select_blocks ::
  "int list \<Rightarrow> int \<Rightarrow> int \<Rightarrow> ((int \<times> int) \<times> int \<times> (int \<times> int)) list" where
  "select_blocks blocks begsam endsam = select_from 0 0 blocks begsam endsam"

subsection \<open>return_dat\<close>

definition assign_block ::
  "real option list list \<Rightarrow> int \<times> int \<Rightarrow> real list list \<Rightarrow> int \<times> int
     \<Rightarrow> error + real option list list" where
  \<comment> \<open>\<open>dat[:, i_dat[0]:i_dat[1]] = dat_in_rec[:, i_blk[0]:i_blk[1]]\<close>, row by row\<close>
  "assign_block dat i_dat dat_in_rec i_blk =
     mapM (\<lambda>(row, src). assign_slice row (fst i_dat) (snd i_dat)
                          (map Some (py_slice src (fst i_blk) (snd i_blk))))
          (zip dat dat_in_rec)"

fun read_blocks ::
  "edf \<Rightarrow> int list \<Rightarrow> ((int \<times> int) \<times> int \<times> (int \<times> int)) list \<Rightarrow> real option list list
     \<Rightarrow> error + real option list list" where
  "read_blocks self chan [] dat = Inr dat"
| "read_blocks self chan ((i_dat, blk, i_blk) # ts) dat =
     bind (read_record self blk chan) (\<lambda>dat_in_rec.
     bind (assign_block dat i_dat dat_in_rec i_blk) (\<lambda>dat'.
     read_blocks self chan ts dat'))"

definition calibrate :: "real \<Rightarrow> real \<Rightarrow> real \<Rightarrow> real option \<Rightarrow> real option" where
  \<comment> \<open>\<open>(dat - dig_min) * gain + phys_min\<close> on one cell\<close>
  "calibrate dmin g pmin c = map_option (\<lambda>d. (d - dmin) * g + pmin) c"

definition return_dat :: "edf \<Rightarrow> int list \<Rightarrow> int \<Rightarrow> int \<Rightarrow> error + real option list list" where
  "return_dat self chan begsam endsam =
     (if \<not> begsam < endsam then Inl AssertionError
      else
        let dat = replicate (length chan) (replicate (nat (endsam - begsam)) None) in
        bind (np_max (n_samples_per_record (hdr self))) (\<lambda>smpl_in_blk.
        let n_blocks = n_records (hdr self) in
        if n_blocks < 0 then Inl ValueError
        else
          let blocks = replicate (nat n_blocks) smpl_in_blk in
          bind (read_blocks self chan (select_blocks blocks begsam endsam) dat) (\<lambda>dat.
          bind (attr (dig_min self)) (\<lambda>dmin.
          bind (mapM (py_index dmin) chan) (\<lambda>dmins.
          bind (attr (gain self)) (\<lambda>g.
          bind (mapM (py_index g) chan) (\<lambda>gains.
          bind (attr (phys_min self)) (\<lambda>pmin.
          bind (mapM (py_index pmin) chan) (\<lambda>pmins.
          Inr (map (\<lambda>(row, dm, gn, pm). map (calibrate dm gn pm) row)
                 (zip dat (zip dmins (zip gains pmins)))))))))))))"

subsection \<open>write_edf\<close>

definition DIGITAL_MAX :: int where
  "DIGITAL_MAX = 32767"

definition DIGITAL_MIN :: int where
  "DIGITAL_MIN = -1 * DIGITAL_MAX"

text \<open>
  The argument \<open>data\<close>, an instance of \<open>ChanTime\<close> with one trial, as far as
  \<open>write_edf\<close> reads it: \<open>data.start_time\<close>, \<open>data.axis['time'][0]\<close>,
  \<open>data.axis['chan'][0]\<close>, \<open>data.data[0]\<close> (channels by samples) and \<open>data.s_freq\<close>.
  \<open>data.number_of('chan')[0]\<close> is the number of channel labels.
\<close>

record chantime =
  data_start_time :: "datetime option"
  axis_time :: "real list"
  axis_chan :: "string list"
  data0 :: "real list list"
  s_freq :: real

text \<open>A Python number, and an optional argument of a call.\<close>

datatype pynum = PyInt int | PyFloat real

datatype 'a arg = Omitted | Passed 'a

definition num_val :: "pynum \<Rightarrow> real" where
  "num_val v = (case v of PyInt i \<Rightarrow> real_of_int i | PyFloat x \<Rightarrow> x)"

definition num_neg :: "pynum \<Rightarrow> pynum" where
  \<comment> \<open>\<open>-1 * v\<close>\<close>
  "num_neg v = (case v of PyInt i \<Rightarrow> PyInt (-1 * i) | PyFloat x \<Rightarrow> PyFloat (-1 * x))"

definition max_abs :: "real list list \<Rightarrow> error + pynum" where
  \<comment> \<open>\<open>max(abs(a))\<close> of numpy on a matrix: ValueError when it has no entry\<close>
  "max_abs rows =
     (if concat rows = [] then Inl ValueError
      else Inr (PyFloat (Max (set (map abs (concat rows))))))"

definition trunc :: "real \<Rightarrow> int" where
  \<comment> \<open>rounding towards zero\<close>
  "trunc x = (if 0 \<le> x then \<lfloor>x\<rfloor> else \<lceil>x\<rceil>)"

definition astype_int16 :: "real \<Rightarrow> error + 16 word" where
  \<comment> \<open>\<open>astype('int16')\<close> on one value: the fraction is cut off; the cast of a value
      whose integer part is no int16 is not defined by C\<close>
  "astype_int16 x =
     (if - 32769 < x \<and> x < 32768 then Inr (word_of_int (trunc x)) else Inl Unmodelled)"

definition saturate :: "16 word \<Rightarrow> 16 word" where
  \<comment> \<open>\<open>dat[dat > DIGITAL_MAX] = DIGITAL_MAX; dat[dat < DIGITAL_MIN] = DIGITAL_MIN\<close> on one
      item of the int16 array\<close>
  "saturate d =
     (let d1 = (if sint d > DIGITAL_MAX then word_of_int DIGITAL_MAX else d)
      in if sint d1 < DIGITAL_MIN then word_of_int DIGITAL_MIN else d1)"

definition digitize :: "pynum \<Rightarrow> real list list \<Rightarrow> error + 16 word list list" where
  \<comment> \<open>lines 264 to 267: a division by zero gives inf or nan\<close>
  "digitize pmax rows =
     (if num_val pmax = 0 then Inl Unmodelled
      else bind (mapM (mapM (\<lambda>x. astype_int16
                                  (x / num_val pmax * real_of_int DIGITAL_MAX)))
                   rows)
             (\<lambda>dat. Inr (map (map saturate) dat)))"

subsubsection \<open>Formatting\<close>

fun digits_of :: "nat \<Rightarrow> nat \<Rightarrow> string" where
  \<comment> \<open>the decimal digits of n; the first argument bounds their number\<close>
  "digits_of 0 n = []"
| "digits_of (Suc k) n =
     (if n < 10 then [char_of (48 + n)] else digits_of k (n div 10) @ [char_of (48 + n mod 10)])"

definition str_int :: "int \<Rightarrow> string" where
  \<comment> \<open>\<open>str(i)\<close>\<close>
  "str_int i = (if i < 0 then CHR ''-'' # digits_of (Suc (nat (- i))) (nat (- i))
               else digits_of (Suc (nat i)) (nat i))"

definition ljust :: "nat \<Rightarrow> string \<Rightarrow> string" where
  \<comment> \<open>the format \<open>{:<w}\<close>: padded with blanks to the width, never cut\<close>
  "ljust w s = s @ replicate (w - length s) CHR '' ''"

definition str_num :: "pynum \<Rightarrow> error + string" where
  \<comment> \<open>\<open>str\<close> of a number: of a float, 1000.0 when it is a whole number below 1e16 and
      not zero; the digits of another float depend on its binary expansion\<close>
  "str_num v =
     (case v of
        PyInt i \<Rightarrow> Inr (str_int i)
      | PyFloat x \<Rightarrow>
          if x = real_of_int \<lfloor>x\<rfloor> \<and> \<bar>x\<bar> < 10 ^ 16 \<and> x \<noteq> 0
          then Inr (str_int \<lfloor>x\<rfloor> @ ''.0'')
          else Inl Unmodelled)"

definition encode_ascii :: "string \<Rightarrow> error + byte list" where
  "encode_ascii s =
     (if list_all (\<lambda>c. (of_char c :: nat) < 128) s then Inr s else Inl UnicodeEncodeError)"

definition two_digits :: "int \<Rightarrow> string" where
  "two_digits i = [char_of (48 + nat i div 10), char_of (48 + nat i mod 10)]"

definition strftime_date :: "datetime \<Rightarrow> string" where
  \<comment> \<open>\<open>strftime('%d.%m.%y')\<close>\<close>
  "strftime_date t =
     two_digits (day t) @ ''.'' @ two_digits (month t) @ ''.'' @ two_digits (year t mod 100)"

definition strftime_time :: "datetime \<Rightarrow> string" where
  \<comment> \<open>\<open>strftime('%H.%M.%S')\<close>\<close>
  "strftime_time t =
     two_digits (hour t) @ ''.'' @ two_digits (minute t) @ ''.'' @ two_digits (second t)"

subsubsection \<open>datetime + timedelta\<close>

definition round_half_even :: "real \<Rightarrow> int" where
  "round_half_even r =
     (let f = \<lfloor>r\<rfloor>; d = r - real_of_int f
      in if d < 1 / 2 then f else if d > 1 / 2 then f + 1 else if even f then f else f + 1)"

definition days_before_year :: "int \<Rightarrow> int" where
  "days_before_year y = (let z = y - 1 in z * 365 + z div 4 - z div 100 + z div 400)"

definition days_before_month :: "int \<Rightarrow> int \<Rightarrow> int" where
  "days_before_month y m = sum_list (map (days_in_month y) [1..m - 1])"

definition ymd2ord :: "int \<Rightarrow> int \<Rightarrow> int \<Rightarrow> int" where
  "ymd2ord y m d = days_before_year y + days_before_month y m + d"

definition ord2ymd :: "int \<Rightarrow> int \<times> int \<times> int" where
  \<comment> \<open>the inverse, computed as \<open>datetime._ord2ymd\<close> does\<close>
  "ord2ymd n0 =
     (let n = n0 - 1;
          n400 = n div 146097; n = n mod 146097;
          n100 = n div 36524; n = n mod 36524;
          n4 = n div 1461; n = n mod 1461;
          n1 = n div 365; n = n mod 365;
          y = n400 * 400 + 1 + n100 * 100 + n4 * 4 + n1
      in if n1 = 4 \<or> n100 = 4 then (y - 1, 12, 31)
         else
           let leapyear = (n1 = 3 \<and> (n100 = 3 \<or> n4 \<noteq> 24));
               m = (n + 50) div 32;
               preceding = days_before_month 1 m + (if m > 2 \<and> leapyear then 1 else 0);
               (m, preceding) =
                 (if preceding > n
                  then (m - 1, preceding - (days_in_month 1 (m - 1)
                                             + (if m - 1 = 2 \<and> leapyear then 1 else 0)))
                  else (m, preceding))
           in (y, m, n - preceding + 1))"

definition add_seconds :: "datetime \<Rightarrow> real \<Rightarrow> error + datetime" where
  \<comment> \<open>\<open>t + timedelta(seconds=x)\<close>: the seconds are rounded to microseconds; OverflowError
      when the timedelta or the result is out of range\<close>
  "add_seconds t x =
     (let delta = round_half_even (x * 1000000)
      in if \<bar>delta div 86400000000\<bar> > 999999999 then Inl OverflowError
         else
           let us = ((ymd2ord (year t) (month t) (day t) * 86400
                      + hour t * 3600 + minute t * 60 + second t) * 1000000
                     + microsecond t) + delta;
               days = us div 86400000000; r = us mod 86400000000;
               (y, m, d) = ord2ymd days
           in if days < 1 \<or> days > 3652059 then Inl OverflowError
              else Inr \<lparr>year = y, month = m, day = d, hour = r div 3600000000,
                        minute = r div 60000000 mod 60, second = r div 1000000 mod 60,
                        microsecond = r mod 1000000\<rparr>)"

subsubsection \<open>The file written\<close>

definition pack_h :: "16 word \<Rightarrow> byte list" where
  \<comment> \<open>one item of \<open>pack('<h...')\<close>: two bytes, the low one first\<close>
  "pack_h w = [char_of (unat w mod 256), char_of (unat w div 256)]"

definition edf_resolve :: "pynum option arg \<Rightarrow> pynum option" where
  \<comment> \<open>the parameter \<open>physical_max=1000\<close> of the signature\<close>
  "edf_resolve a = (case a of Omitted \<Rightarrow> Some (PyInt 1000) | Passed v \<Rightarrow> v)"

definition edf_physical_max :: "chantime \<Rightarrow> pynum option arg \<Rightarrow> error + pynum" where
  \<comment> \<open>lines 257 and 258\<close>
  "edf_physical_max d a =
     (case edf_resolve a of None \<Rightarrow> max_abs (data0 d) | Some v \<Rightarrow> Inr v)"

definition edf_header ::
  "chantime \<Rightarrow> datetime \<Rightarrow> pynum \<Rightarrow> int \<Rightarrow> int \<Rightarrow> error + byte list" where
  \<comment> \<open>what lines 270 to 309 write, given \<open>start_time\<close>, \<open>physical_max\<close>, \<open>s_freq\<close> and
      \<open>n_records\<close>\<close>
  "edf_header d start pmax sfreq nrec =
     (let n_chan = length (axis_chan d);
          hnb = 256 + 256 * int n_chan
      in bind (mapM (\<lambda>chan. encode_ascii (ljust 16 chan)) (axis_chan d)) (\<lambda>labels.
         bind (str_num (num_neg pmax)) (\<lambda>pmin_s.
         bind (str_num pmax) (\<lambda>pmax_s.
         Inr (ljust 8 (str_int 0) @ ljust 80 ''X X X X'' @ ljust 80 ''Startdate X X X X''
              @ strftime_date start @ strftime_time start
              @ ljust 8 (str_int hnb) @ replicate 44 CHR '' ''
              @ ljust 8 (str_int nrec) @ ljust 8 (str_int 1) @ ljust 4 (str_int (int n_chan))
              @ concat labels
              @ concat (replicate n_chan (ljust 80 []))
              @ concat (replicate n_chan (ljust 8 ''uV''))
              @ concat (replicate n_chan (ljust 8 pmin_s))
              @ concat (replicate n_chan (ljust 8 pmax_s))
              @ concat (replicate n_chan (ljust 8 (str_int DIGITAL_MIN)))
              @ concat (replicate n_chan (ljust 8 (str_int DIGITAL_MAX)))
              @ concat (replicate n_chan (ljust 80 []))
              @ concat (replicate n_chan (ljust 8 (str_int sfreq)))
              @ concat (replicate n_chan (replicate 32 CHR '' '')))))))"

definition edf_record :: "16 word list list \<Rightarrow> int \<Rightarrow> int \<Rightarrow> int \<Rightarrow> error + byte list" where
  \<comment> \<open>one turn of the loop of lines 312 to 316: \<open>pack\<close> raises when the number of
      items is not l\<close>
  "edf_record dat sfreq l i =
     (let i0 = i * sfreq; i1 = i0 + sfreq;
          x = concat (map (\<lambda>row. py_slice row i0 i1) dat)
      in if int (length x) = max 0 l then Inr (concat (map pack_h x)) else Inl StructError)"

definition write_edf :: "chantime \<Rightarrow> pynum option arg \<Rightarrow> error + byte list" where
  \<comment> \<open>the bytes of the file written\<close>
  "write_edf d a =
     (case data_start_time d of
        None \<Rightarrow> Inl ValueError
      | Some t \<Rightarrow>
          bind (py_index (axis_time d) 0) (\<lambda>t0.
          bind (add_seconds t t0) (\<lambda>start.
          bind (edf_physical_max d a) (\<lambda>pmax.
          bind (digitize pmax (data0 d)) (\<lambda>dat.
          let n_smp = (case data0 d of [] \<Rightarrow> 0 | row # _ \<Rightarrow> int (length row));
              sfreq = trunc (s_freq d)
          in if sfreq = 0 then Inl ZeroDivisionError
             else
               let nrec = n_smp div sfreq;
                   l = sfreq * int (length (axis_chan d))
               in bind (edf_header d start pmax sfreq nrec) (\<lambda>h.
                  bind (mapM (edf_record dat sfreq l) [0..nrec - 1]) (\<lambda>recs.
                  Inr (h @ concat recs))))))))"

section \<open>Files and datasets used as concrete inputs\<close>

definition bare_file :: "string \<Rightarrow> byte list" where
  \<comment> \<open>a file of 256 bytes: the fixed part of a header with the given date field, no
      channel and no record\<close>
  "bare_file date =
     ''0       '' @ replicate 80 CHR '' '' @ replicate 80 CHR '' '' @ date @ ''00.00.00''
     @ ''256     '' @ replicate 44 CHR '' '' @ ''0       '' @ ''1       '' @ ''0   ''"

definition bare_header :: "datetime \<Rightarrow> header" where
  "bare_header t =
     \<lparr>subject_id = [], recording_id = [], start_time = t, header_n_bytes = 256,
      n_records = 0, record_length = 1, n_channels = 0, label = [], transducer = [],
      physical_dim = [], physical_min = [], physical_max = [], digital_min = [],
      digital_max = [], prefiltering = [], n_samples_per_record = []\<rparr>"

definition midnight :: "int \<Rightarrow> int \<Rightarrow> int \<Rightarrow> datetime" where
  "midnight y m d =
     \<lparr>year = y, month = m, day = d, hour = 0, minute = 0, second = 0, microsecond = 0\<rparr>"

definition small_data :: chantime where
  \<comment> \<open>one channel, two samples at 2 Hz\<close>
  "small_data =
     \<lparr>data_start_time = Some \<lparr>year = 2015, month = 3, day = 1, hour = 23, minute = 59,
                                second = 58, microsecond = 0\<rparr>,
      axis_time = [0, 1 / 2], axis_chan = [''a''], data0 = [[500, - 250]], s_freq = 2\<rparr>"


section \<open>Basic facts\<close>

lemma bind_Inl [simp]: "bind (Inl e) f = Inl e"
  by (simp add: bind_def)

lemma bind_Inr [simp]: "bind (Inr x) f = f x"
  by (simp add: bind_def)

lemma bind_eq_Inr: "bind m f = Inr y \<longleftrightarrow> (\<exists>x. m = Inr x \<and> f x = Inr y)"
  by (cases m) simp_all

lemma attr_None [simp]: "attr None = Inl AttributeError"
  by (simp add: attr_def)

lemma attr_Some [simp]: "attr (Some x) = Inr x"
  by (simp add: attr_def)

subsection \<open>Reading the header\<close>

lemma rbind_Inr: "rbind m f p = Inr r \<longleftrightarrow> (\<exists>x p'. m p = Inr (x, p') \<and> f x p' = Inr r)"
  by (auto simp: rbind_def split: sum.splits)

lemma rraise_Inr [simp]: "rraise e p \<noteq> Inr r"
  by (simp add: rraise_def)

lemma lift_Inr: "lift r p = Inr (x, p') \<longleftrightarrow> r = Inr x \<and> p' = p"
  by (auto simp: lift_def split: sum.splits)

lemma if_rraise_Inr: "(if c then rraise e else m) p = Inr r \<longleftrightarrow> \<not> c \<and> m p = Inr r"
  by simp

text \<open>After a read the rest of the file is the rest before, without the bytes read.\<close>

lemma f_read_Inr:
  assumes "f_read file n p = Inr (b, p')" and "0 \<le> p"
  shows "b = take n (drop (nat p) file) \<and> 0 \<le> p'
         \<and> drop (nat p') file = drop n (drop (nat p) file)"
proof -
  have b: "b = take n (drop (nat p) file)" and p': "p' = p + int (length b)"
    using assms(1) by (auto simp: f_read_def Let_def)
  have "nat p' = nat p + min n (length file - nat p)"
    using assms(2) by (simp add: p' b nat_add_distrib min_def)
  then have "drop (nat p') file = drop n (drop (nat p) file)"
    by (cases "n \<le> length file - nat p") (simp_all add: min_def add.commute)
  then show ?thesis using b p' assms(2) by simp
qed

lemma read_with_Inr:
  assumes "read_with file n conv p = Inr (x, p')" and "0 \<le> p"
  shows "conv (take n (drop (nat p) file)) = Inr x \<and> 0 \<le> p'
         \<and> drop (nat p') file = drop n (drop (nat p) file)"
proof -
  from assms(1) obtain b q
    where r: "f_read file n p = Inr (b, q)" and l: "lift (conv b) q = Inr (x, p')"
    by (auto simp: read_with_def rbind_Inr)
  from l have "conv b = Inr x" "p' = q"
    by (auto simp: lift_Inr)
  with f_read_Inr [OF r assms(2)] show ?thesis by simp
qed

text \<open>What a successful run of \<open>_read_hdr\<close> has done, statement by statement.\<close>

lemma read_hdr_fromE:
  assumes "read_hdr_from file 0 = Inr (h, q)"
  obtains p1 subj p2 recid p3 d mo y p4 hh mi sec p5 start hnb p6 p7 nrec p8 rlen p9 nch p10
    labels p11 trans p12 dims p13 pmins p14 pmaxs p15 dmins p16 dmaxs p17 pres p18 nsprs p19
  where
    "f_read file 8 0 = Inr (''0       '', p1)"
    "read_with file 80 decode_strip p1 = Inr (subj, p2)"
    "read_with file 80 decode_strip p2 = Inr (recid, p3)"
    "read_with file 8 (\<lambda>b. bind (numbers_in b) unpack3) p3 = Inr ((d, mo, y), p4)"
    "read_with file 8 (\<lambda>b. bind (numbers_in b) unpack3) p4 = Inr ((hh, mi, sec), p5)"
    "mk_datetime (if y \<ge> 85 then y + 1900 else y + 2000) mo d hh mi sec = Inr start"
    "read_with file 8 py_int p5 = Inr (hnb, p6)"
    "f_seek_cur 44 p6 = Inr ((), p7)"
    "read_with file 8 py_int p7 = Inr (nrec, p8)"
    "read_with file 8 py_float p8 = Inr (rlen, p9)"
    "read_with file 4 py_int p9 = Inr (nch, p10)"
    "rrepeat (nat nch) (read_with file 16 decode_strip) p10 = Inr (labels, p11)"
    "rrepeat (nat nch) (read_with file 80 decode_strip) p11 = Inr (trans, p12)"
    "rrepeat (nat nch) (read_with file 8 decode_strip) p12 = Inr (dims, p13)"
    "rrepeat (nat nch) (read_with file 8 py_float) p13 = Inr (pmins, p14)"
    "rrepeat (nat nch) (read_with file 8 py_float) p14 = Inr (pmaxs, p15)"
    "rrepeat (nat nch) (read_with file 8 py_float) p15 = Inr (dmins, p16)"
    "rrepeat (nat nch) (read_with file 8 py_float) p16 = Inr (dmaxs, p17)"
    "rrepeat (nat nch) (read_with file 80 decode_strip) p17 = Inr (pres, p18)"
    "rrepeat (nat nch) (read_with file 8 py_int) p18 = Inr (nsprs, p19)"
    "f_seek_cur (32 * nch) p19 = Inr ((), hnb)"
    "\<lparr>subject_id = subj, recording_id = recid, start_time = start,
      header_n_bytes = hnb, n_records = nrec, record_length = rlen,
      n_channels = nch, label = labels, transducer = trans,
      physical_dim = dims, physical_min = pmins, physical_max = pmaxs,
      digital_min = dmins, digital_max = dmaxs, prefiltering = pres,
      n_samples_per_record = nsprs\<rparr> = h"
    "hnb = q"
  using assms unfolding read_hdr_from_def
  apply (simp add: rbind_Inr f_tell_def rreturn_def lift_Inr Let_def if_rraise_Inr
      split: prod.splits)
  apply (elim exE conjE)
  apply (rule that, assumption+)
  done

lemma read_hdr_from_date:
  assumes "read_hdr_from file 0 = Inr (h, q)"
  shows "\<exists>d mo y. bind (numbers_in (take 8 (drop 168 file))) unpack3 = Inr (d, mo, y)
           \<and> year (start_time h) = (if y \<ge> 85 then y + 1900 else y + 2000)"
proof -
  from assms obtain p1 subj p2 recid p3 d mo y p4 hh mi sec start rest where
    r0: "f_read file 8 0 = Inr (''0       '', p1)" and
    r1: "read_with file 80 decode_strip p1 = Inr (subj, p2)" and
    r2: "read_with file 80 decode_strip p2 = Inr (recid, p3)" and
    r3: "read_with file 8 (\<lambda>b. bind (numbers_in b) unpack3) p3 = Inr ((d, mo, y), p4)" and
    dt: "mk_datetime (if y \<ge> 85 then y + 1900 else y + 2000) mo d hh mi sec = Inr start" and
    st: "start_time h = start_time (rest\<lparr>start_time := start\<rparr>)"
    by (elim read_hdr_fromE) force
  note a0 = f_read_Inr [OF r0]
  have q1: "0 \<le> p1" "drop (nat p1) file = drop 8 file" using a0 by simp_all
  note a1 = read_with_Inr [OF r1 q1(1)]
  have q2: "0 \<le> p2" "drop (nat p2) file = drop 88 file" using a1 q1 by simp_all
  note a2 = read_with_Inr [OF r2 q2(1)]
  have q3: "0 \<le> p3" "drop (nat p3) file = drop 168 file" using a2 q2 by simp_all
  note a3 = read_with_Inr [OF r3 q3(1)]
  have "bind (numbers_in (take 8 (drop 168 file))) unpack3 = Inr (d, mo, y)"
    using a3 q3 by simp
  moreover have "year start = (if y \<ge> 85 then y + 1900 else y + 2000)"
    using dt by (auto simp: mk_datetime_def split: if_splits)
  ultimately show ?thesis using st by auto
qed

subsection \<open>The files without channels\<close>

lemma strip_blank: "strip_with is_str_space (replicate n CHR '' '') = []"
  by (simp add: strip_with_def is_str_space_def is_space_def)

lemma read_hdr_bare:
  assumes "length date = 8" and "numbers_in date = Inr [d, m, y]"
    and "mk_datetime (if y \<ge> 85 then y + 1900 else y + 2000) m d 0 0 0 = Inr t"
  shows "read_hdr (bare_file date) = Inr (bare_header t)"
  using assms
  by (simp add: read_hdr_def read_hdr_from_def bare_file_def bare_header_def
      rbind_def f_tell_def f_read_def read_with_def lift_def decode_strip_def strip_blank
      numbers_in_def [of "''00.00.00''"] is_digit_def decimal_def digit_val_def unpack3_def
      py_int_def py_float_def strip_with_def is_space_def split_sign_def
      f_seek_cur_def rreturn_def finite_float_def scale10_def lower_def list_all_iff
      is_str_space_def)

lemma bare_file_date: "length date = 8 \<Longrightarrow> take 8 (drop 168 (bare_file date)) = date"
  by (simp add: bare_file_def)

lemma numbers_84: "numbers_in ''01.01.84'' = Inr [1, 1, 84]"
  by (simp add: numbers_in_def is_digit_def decimal_def digit_val_def)

lemma numbers_85: "numbers_in ''01.01.85'' = Inr [1, 1, 85]"
  by (simp add: numbers_in_def is_digit_def decimal_def digit_val_def)

lemma read_hdr_84: "read_hdr (bare_file ''01.01.84'') = Inr (bare_header (midnight 2084 1 1))"
  by (rule read_hdr_bare [OF _ numbers_84])
     (simp_all add: mk_datetime_def days_in_month_def midnight_def)

lemma read_hdr_85: "read_hdr (bare_file ''01.01.85'') = Inr (bare_header (midnight 1985 1 1))"
  by (rule read_hdr_bare [OF _ numbers_85])
     (simp_all add: mk_datetime_def days_in_month_def midnight_def)

section \<open>The claims\<close>

subsection \<open>C9: the year of the start time\<close>

text \<open>
  Claim C9. \<open>_read_hdr\<close> reads the year of the start time from the date field (the
  eight bytes at offset 168, three numbers: day, month, year) with the cutoff 1985:
  whenever the header parses, a year number \<open>y\<close> of at least 85 gives the year
  \<open>1900 + y\<close>, and a smaller one gives \<open>2000 + y\<close>. The witness is a file dated 01.01.84,
  read as 2084, and one dated 01.01.85, read as 1985.
\<close>

theorem read_hdr_year_cutoff:
  assumes "read_hdr file = Inr h" and "numbers_in (take 8 (drop 168 file)) = Inr [d, m, y]"
  shows "year (start_time h) = (if y \<ge> 85 then 1900 + y else 2000 + y)"
proof -
  from assms(1) obtain q where "read_hdr_from file 0 = Inr (h, q)"
    by (auto simp: read_hdr_def split: sum.splits)
  from read_hdr_from_date [OF this] assms(2) show ?thesis
    by (auto simp: unpack3_def)
qed

theorem read_hdr_year_cutoff_witness:
  "read_hdr (bare_file ''01.01.84'') = Inr (bare_header (midnight 2084 1 1))
   \<and> numbers_in (take 8 (drop 168 (bare_file ''01.01.84''))) = Inr [1, 1, 84]
   \<and> year (start_time (bare_header (midnight 2084 1 1))) = 2084
   \<and> read_hdr (bare_file ''01.01.85'') = Inr (bare_header (midnight 1985 1 1))
   \<and> numbers_in (take 8 (drop 168 (bare_file ''01.01.85''))) = Inr [1, 1, 85]
   \<and> year (start_time (bare_header (midnight 1985 1 1))) = 1985"
  using read_hdr_year_cutoff [OF read_hdr_84, of 1 1 84]
    read_hdr_year_cutoff [OF read_hdr_85, of 1 1 85]
    read_hdr_84 read_hdr_85 numbers_84 numbers_85
  by (simp add: bare_file_date)

subsection \<open>C4: the digital code of a sample\<close>











subsection \<open>C6: upsampling by repetition\<close>








subsection \<open>C8: the default of physical_max\<close>

lemma write_edf_cong:
  assumes "edf_physical_max d a = edf_physical_max d b"
  shows "write_edf d a = write_edf d b"
  by (simp only: write_edf_def assms)

text \<open>
  Claim C8, as the code has it. The signature of \<open>write_edf\<close> gives \<open>physical_max\<close> the
  default 1000: a caller who does not supply the argument gets 1000. The largest
  absolute value of the data is taken when the caller passes \<open>None\<close>: the call then
  writes what a call with that value would write, the value bounds every sample and is
  the absolute value of one of them.
\<close>

theorem physical_max_auto:
  assumes "concat (data0 d) \<noteq> []"
  shows "edf_physical_max d (Passed None) = Inr (PyFloat (Max (set (map abs (concat (data0 d))))))
    \<and> write_edf d (Passed None)
           = write_edf d (Passed (Some (PyFloat (Max (set (map abs (concat (data0 d))))))))
    \<and> (\<forall>x \<in> set (concat (data0 d)). \<bar>x\<bar> \<le> Max (set (map abs (concat (data0 d)))))
    \<and> (\<exists>x \<in> set (concat (data0 d)). \<bar>x\<bar> = Max (set (map abs (concat (data0 d)))))
    \<and> edf_physical_max d Omitted = Inr (PyInt 1000)
    \<and> write_edf d Omitted = write_edf d (Passed (Some (PyInt 1000)))"
proof -
  let ?s = "set (map abs (concat (data0 d)))"
  have 1: "edf_physical_max d (Passed None) = Inr (PyFloat (Max ?s))"
    using assms by (simp add: edf_physical_max_def edf_resolve_def max_abs_def)
  have 2: "write_edf d (Passed None) = write_edf d (Passed (Some (PyFloat (Max ?s))))"
    by (rule write_edf_cong) (simp add: 1, simp add: edf_physical_max_def edf_resolve_def)
  have fin: "finite ?s" and ne: "?s \<noteq> {}" using assms by simp_all
  have 3: "\<forall>x \<in> set (concat (data0 d)). \<bar>x\<bar> \<le> Max ?s"
    using fin by (auto intro!: Max_ge)
  from Max_in [OF fin ne] have "Max ?s \<in> abs ` set (concat (data0 d))"
    by simp
  then obtain x where "x \<in> set (concat (data0 d))" and "Max ?s = \<bar>x\<bar>"
    by (rule imageE)
  then have 4: "\<exists>x \<in> set (concat (data0 d)). \<bar>x\<bar> = Max ?s"
    by (intro bexI [of _ x]) simp_all
  have 5: "edf_physical_max d Omitted = Inr (PyInt 1000)"
    by (simp add: edf_physical_max_def edf_resolve_def)
  have 6: "write_edf d Omitted = write_edf d (Passed (Some (PyInt 1000)))"
    by (rule write_edf_cong) (simp add: 5, simp add: edf_physical_max_def edf_resolve_def)
  from 1 2 3 4 5 6 show ?thesis by blast
qed

lemma small_data_max: "Max (set (map abs (concat (data0 small_data)))) = 500"
  by (simp add: small_data_def)

theorem physical_max_auto_witness:
  "concat (data0 small_data) \<noteq> []
   \<and> edf_physical_max small_data (Passed None) = Inr (PyFloat 500)
   \<and> edf_physical_max small_data Omitted = Inr (PyInt 1000)"
  using physical_max_auto [of small_data] small_data_max
  by (simp add: small_data_def)

text \<open>
  The claim as the spec words it fails on a dataset whose largest absolute value is
  500: without the argument, \<open>physical_max\<close> is 1000 and the samples 500 and -250 get
  the codes 16383 and -8191; with 500 they would get 32767 and -16383.
\<close>

theorem physical_max_omitted_counterexample:
  "edf_physical_max small_data Omitted = Inr (PyInt 1000)
   \<and> max_abs (data0 small_data) = Inr (PyFloat 500)
   \<and> bind (edf_physical_max small_data Omitted) (\<lambda>pm. digitize pm (data0 small_data))
       = Inr [[16383, - 8191]]
   \<and> digitize (PyFloat 500) (data0 small_data) = Inr [[32767, - 16383]]"
  by (simp add: edf_physical_max_def edf_resolve_def max_abs_def small_data_def digitize_def
      num_val_def astype_int16_def DIGITAL_MAX_def DIGITAL_MIN_def saturate_def trunc_def)

end
